theory Spec2Isabelle
  imports Complex_Main
begin

section \<open>The Velis device class of the Ariston client\<close>

text \<open>
  A shallow embedding of \<^verbatim>\<open>AristonVelisDevice\<close> (\<^verbatim>\<open>ariston/velis_device.py\<close>).
  The class keeps two dictionaries (\<^verbatim>\<open>data\<close>, \<^verbatim>\<open>plant_settings\<close>), three strings fixed
  by the constructor, and forwards every write to the cloud client \<^verbatim>\<open>AristonAPI\<close>
  before it updates its own cache.
\<close>

subsection \<open>Python values and exceptions\<close>

text \<open>
  Both dictionaries are \<^verbatim>\<open>dict[str, Any]\<close>. The values that the class itself stores or
  tests are \<^verbatim>\<open>None\<close>, booleans and floats; integers and strings are kept because the
  refresh code of the base class may store them. The class does no arithmetic on floats:
  it builds the literals \<^verbatim>\<open>0.0\<close>, \<^verbatim>\<open>1.0\<close>, \<^verbatim>\<open>40.0\<close>, passes floats on and stores them, so a
  float is a real number here and the IEEE special values are left out.
\<close>

datatype pyval =
    PNone
  | PBool bool
  | PInt int
  | PFloat real
  | PStr string

text \<open>The truth value Python gives to an object in \<^verbatim>\<open>x if v else y\<close>.\<close>

fun truthy :: "pyval \<Rightarrow> bool" where
  "truthy PNone = False"
| "truthy (PBool b) = b"
| "truthy (PInt i) = (i \<noteq> 0)"
| "truthy (PFloat f) = (f \<noteq> 0)"
| "truthy (PStr s) = (s \<noteq> [])"

text \<open>
  \<^verbatim>\<open>KeyError\<close> carries the missing key. \<^verbatim>\<open>Exception\<close> stands for any other exception,
  named by its text; the remote client may raise either.
\<close>

datatype py_exception =
    KeyError string
  | Exception string

type_synonym pydict = "string \<rightharpoonup> pyval"

text \<open>\<^verbatim>\<open>d[k]\<close> raises on a missing key, \<^verbatim>\<open>d.get(k, default)\<close> does not.\<close>

definition dict_getitem :: "pydict \<Rightarrow> string \<Rightarrow> py_exception + pyval" where
  "dict_getitem d k = (case d k of None \<Rightarrow> Inl (KeyError k) | Some v \<Rightarrow> Inr v)"

definition dict_get :: "pydict \<Rightarrow> string \<Rightarrow> pyval \<Rightarrow> pyval" where
  "dict_get d k dflt = (case d k of None \<Rightarrow> dflt | Some v \<Rightarrow> v)"

subsection \<open>The device object and the remote client\<close>

text \<open>
  The fields \<^verbatim>\<open>data\<close>, \<^verbatim>\<open>plant_data\<close> and \<^verbatim>\<open>gw\<close> belong to the base classes
  \<^verbatim>\<open>AristonDevice\<close> and \<^verbatim>\<open>AristonVelisBaseDevice\<close>, which this file does not contain; the
  last two are opaque Python values that the class only passes on. The abstract
  properties \<^verbatim>\<open>anti_legionella_on_off\<close> and \<^verbatim>\<open>max_setpoint_temp\<close> are the two key names
  a concrete device family supplies; they are fields as well.
\<close>

record device =
  data :: pydict
  plant_data :: pyval
  gw :: pyval
  anti_legionella_on_off :: string
  max_setpoint_temp :: string
  plant_settings :: pydict
  umsys :: string
  unit :: string
  language_tag :: string

text \<open>
  The client is outside this class. Its two methods take the six arguments of the call
  and act on a remote state \<open>'r\<close> that the device cannot reach: they return that state
  updated, with either the exception they raise or their result. The client has no
  reference to the device object, so a call cannot change the device.
\<close>

type_synonym 'r remote_method =
  "pyval \<Rightarrow> pyval \<Rightarrow> string \<Rightarrow> real \<Rightarrow> pyval \<Rightarrow> string \<Rightarrow> 'r \<Rightarrow> (py_exception + pyval) \<times> 'r"

record 'r AristonAPI =
  set_velis_plant_setting :: "'r remote_method"
  async_set_velis_plant_setting :: "'r remote_method"

subsection \<open>Construction\<close>

text \<open>
  \<^verbatim>\<open>__init__\<close>: after \<^verbatim>\<open>super().__init__(api, attributes)\<close> has built the object \<open>base\<close>,
  the settings cache is created empty and the unit system, unit label and language tag
  are set. A Python string is a list of code points; the degree sign is U+00B0.
\<close>

definition init :: "device \<Rightarrow> bool \<Rightarrow> string \<Rightarrow> device" where
  "init base is_metric language_tag' =
     base\<lparr> plant_settings := Map.empty,
           umsys := (if is_metric then ''si'' else ''us''),
           unit := (if is_metric then [CHR 0xB0, CHR ''C''] else [CHR 0xB0, CHR ''F'']),
           language_tag := language_tag' \<rparr>"

subsection \<open>Read accessors\<close>

definition water_anti_leg_value :: "device \<Rightarrow> pyval" where
  "water_anti_leg_value self = dict_get (plant_settings self) (anti_legionella_on_off self) PNone"

text \<open>
  The key \<^verbatim>\<open>VelisDeviceProperties.PROC_REQ_TEMP\<close> is a constant of \<^verbatim>\<open>const.py\<close>, which is
  not part of this file; it is the parameter \<open>PROC_REQ_TEMP\<close>.
\<close>

definition proc_req_temp_value :: "string \<Rightarrow> device \<Rightarrow> pyval" where
  "proc_req_temp_value PROC_REQ_TEMP self = dict_get (data self) PROC_REQ_TEMP PNone"

definition water_heater_maximum_setpoint_temperature :: "device \<Rightarrow> pyval" where
  "water_heater_maximum_setpoint_temperature self =
     dict_get (plant_settings self) (max_setpoint_temp self) PNone"

definition water_heater_minimum_temperature :: "device \<Rightarrow> real" where
  "water_heater_minimum_temperature self = 40"

definition water_heater_maximum_temperature :: "device \<Rightarrow> pyval" where
  "water_heater_maximum_temperature self = water_heater_maximum_setpoint_temperature self"

definition water_heater_temperature_step :: "device \<Rightarrow> int" where
  "water_heater_temperature_step self = 1"

definition water_heater_temperature_decimals :: "device \<Rightarrow> int" where
  "water_heater_temperature_decimals self = 0"

definition water_heater_temperature_unit :: "device \<Rightarrow> string" where
  "water_heater_temperature_unit self = unit self"

subsection \<open>Setters\<close>

text \<open>
  Python evaluates the arguments of the call from left to right and only then calls:
  the subscript \<^verbatim>\<open>self.plant_settings[key]\<close> of the fifth argument raises before the
  client is entered. An exception of the client leaves the method before the assignment
  to the cache. A setter returns \<^verbatim>\<open>None\<close>; the client's result is dropped.
  \<open>await\<close> runs the coroutine of the client to its end, so for a single caller the
  asynchronous setters are the sequential ones over the client's other method.
\<close>

definition set_antilegionella ::
  "'r AristonAPI \<Rightarrow> bool \<Rightarrow> device \<Rightarrow> 'r \<Rightarrow> (py_exception + pyval) \<times> device \<times> 'r" where
  "set_antilegionella api anti_leg self r =
     (case dict_getitem (plant_settings self) (anti_legionella_on_off self) of
        Inl e \<Rightarrow> (Inl e, self, r)
      | Inr old \<Rightarrow>
          (case set_velis_plant_setting api
                  (plant_data self)
                  (gw self)
                  (anti_legionella_on_off self)
                  (if anti_leg then 1 else 0)
                  (PFloat (if truthy old then 1 else 0))
                  (umsys self) r of
             (Inl e, r') \<Rightarrow> (Inl e, self, r')
           | (Inr _, r') \<Rightarrow>
               (Inr PNone,
                self\<lparr> plant_settings :=
                  (plant_settings self)(anti_legionella_on_off self \<mapsto> PBool anti_leg) \<rparr>,
                r')))"

definition async_set_antilegionella ::
  "'r AristonAPI \<Rightarrow> bool \<Rightarrow> device \<Rightarrow> 'r \<Rightarrow> (py_exception + pyval) \<times> device \<times> 'r" where
  "async_set_antilegionella api anti_leg self r =
     (case dict_getitem (plant_settings self) (anti_legionella_on_off self) of
        Inl e \<Rightarrow> (Inl e, self, r)
      | Inr old \<Rightarrow>
          (case async_set_velis_plant_setting api
                  (plant_data self)
                  (gw self)
                  (anti_legionella_on_off self)
                  (if anti_leg then 1 else 0)
                  (PFloat (if truthy old then 1 else 0))
                  (umsys self) r of
             (Inl e, r') \<Rightarrow> (Inl e, self, r')
           | (Inr _, r') \<Rightarrow>
               (Inr PNone,
                self\<lparr> plant_settings :=
                  (plant_settings self)(anti_legionella_on_off self \<mapsto> PBool anti_leg) \<rparr>,
                r')))"

text \<open>
  The parameter of the next two methods is called \<^verbatim>\<open>max_setpoint_temp\<close> in the source,
  like the property; it is \<open>new_temp\<close> here.
\<close>

definition set_max_setpoint_temp ::
  "'r AristonAPI \<Rightarrow> real \<Rightarrow> device \<Rightarrow> 'r \<Rightarrow> (py_exception + pyval) \<times> device \<times> 'r" where
  "set_max_setpoint_temp api new_temp self r =
     (case dict_getitem (plant_settings self) (max_setpoint_temp self) of
        Inl e \<Rightarrow> (Inl e, self, r)
      | Inr old \<Rightarrow>
          (case set_velis_plant_setting api
                  (plant_data self)
                  (gw self)
                  (max_setpoint_temp self)
                  new_temp
                  old
                  (umsys self) r of
             (Inl e, r') \<Rightarrow> (Inl e, self, r')
           | (Inr _, r') \<Rightarrow>
               (Inr PNone,
                self\<lparr> plant_settings :=
                  (plant_settings self)(max_setpoint_temp self \<mapsto> PFloat new_temp) \<rparr>,
                r')))"

definition async_set_max_setpoint_temp ::
  "'r AristonAPI \<Rightarrow> real \<Rightarrow> device \<Rightarrow> 'r \<Rightarrow> (py_exception + pyval) \<times> device \<times> 'r" where
  "async_set_max_setpoint_temp api new_temp self r =
     (case dict_getitem (plant_settings self) (max_setpoint_temp self) of
        Inl e \<Rightarrow> (Inl e, self, r)
      | Inr old \<Rightarrow>
          (case async_set_velis_plant_setting api
                  (plant_data self)
                  (gw self)
                  (max_setpoint_temp self)
                  new_temp
                  old
                  (umsys self) r of
             (Inl e, r') \<Rightarrow> (Inl e, self, r')
           | (Inr _, r') \<Rightarrow>
               (Inr PNone,
                self\<lparr> plant_settings :=
                  (plant_settings self)(max_setpoint_temp self \<mapsto> PFloat new_temp) \<rparr>,
                r')))"

subsection \<open>The members of the class as one interface\<close>

text \<open>
  Every concrete member of the class, with its arguments. The two abstract bounds
  \<^verbatim>\<open>water_heater_maximum_setpoint_temperature_minimum\<close> and \<^verbatim>\<open>..._maximum\<close> have no
  body of their own and are left to the device family.
\<close>

datatype member =
    Get_anti_legionella_on_off
  | Get_max_setpoint_temp
  | Get_water_anti_leg_value
  | Get_proc_req_temp_value
  | Call_set_antilegionella bool
  | Call_async_set_antilegionella bool
  | Call_set_max_setpoint_temp real
  | Call_async_set_max_setpoint_temp real
  | Get_water_heater_maximum_setpoint_temperature
  | Get_water_heater_minimum_temperature
  | Get_water_heater_maximum_temperature
  | Get_water_heater_temperature_step
  | Get_water_heater_temperature_decimals
  | Get_water_heater_temperature_unit

text \<open>The value a property read yields; a setter is not a read.\<close>

fun read_member :: "string \<Rightarrow> member \<Rightarrow> device \<Rightarrow> pyval" where
  "read_member P Get_anti_legionella_on_off self = PStr (anti_legionella_on_off self)"
| "read_member P Get_max_setpoint_temp self = PStr (max_setpoint_temp self)"
| "read_member P Get_water_anti_leg_value self = water_anti_leg_value self"
| "read_member P Get_proc_req_temp_value self = proc_req_temp_value P self"
| "read_member P Get_water_heater_maximum_setpoint_temperature self =
     water_heater_maximum_setpoint_temperature self"
| "read_member P Get_water_heater_minimum_temperature self =
     PFloat (water_heater_minimum_temperature self)"
| "read_member P Get_water_heater_maximum_temperature self =
     water_heater_maximum_temperature self"
| "read_member P Get_water_heater_temperature_step self =
     PInt (water_heater_temperature_step self)"
| "read_member P Get_water_heater_temperature_decimals self =
     PInt (water_heater_temperature_decimals self)"
| "read_member P Get_water_heater_temperature_unit self =
     PStr (water_heater_temperature_unit self)"
| "read_member P _ self = PNone"

text \<open>
  Using a member of the object \<open>self\<close> against the remote state \<open>r\<close>: the result or the
  exception, the object afterwards and the remote state afterwards.
\<close>

fun invoke ::
  "'r AristonAPI \<Rightarrow> string \<Rightarrow> member \<Rightarrow> device \<Rightarrow> 'r \<Rightarrow> (py_exception + pyval) \<times> device \<times> 'r" where
  "invoke api P (Call_set_antilegionella b) self r = set_antilegionella api b self r"
| "invoke api P (Call_async_set_antilegionella b) self r = async_set_antilegionella api b self r"
| "invoke api P (Call_set_max_setpoint_temp v) self r = set_max_setpoint_temp api v self r"
| "invoke api P (Call_async_set_max_setpoint_temp v) self r =
     async_set_max_setpoint_temp api v self r"
| "invoke api P m self r = (Inr (read_member P m self), self, r)"

subsection \<open>Clients and a device used in the examples\<close>

text \<open>A client that succeeds and records the arguments of every call it receives.\<close>

type_synonym call_log = "(pyval \<times> pyval \<times> string \<times> real \<times> pyval \<times> string) list"

definition recording_api :: "call_log AristonAPI" where
  "recording_api =
     \<lparr> set_velis_plant_setting =
         (\<lambda>pd g k new old u calls. (Inr PNone, calls @ [(pd, g, k, new, old, u)])),
       async_set_velis_plant_setting =
         (\<lambda>pd g k new old u calls. (Inr PNone, calls @ [(pd, g, k, new, old, u)])) \<rparr>"

text \<open>A client whose every call is recorded and then raises \<open>e\<close>.\<close>

definition failing_api :: "py_exception \<Rightarrow> call_log AristonAPI" where
  "failing_api e =
     \<lparr> set_velis_plant_setting =
         (\<lambda>pd g k new old u calls. (Inl e, calls @ [(pd, g, k, new, old, u)])),
       async_set_velis_plant_setting =
         (\<lambda>pd g k new old u calls. (Inl e, calls @ [(pd, g, k, new, old, u)])) \<rparr>"

text \<open>What \<^verbatim>\<open>super().__init__\<close> leaves behind for a device with the keys of the scenarios.\<close>

definition base_device :: device where
  "base_device =
     \<lparr> data = Map.empty,
       plant_data = PInt 4,
       gw = PStr ''GW01'',
       anti_legionella_on_off = ''AntiLeg'',
       max_setpoint_temp = ''MaxSetpoint'',
       plant_settings = Map.empty,
       umsys = [],
       unit = [],
       language_tag = [] \<rparr>"

text \<open>
  A device as the constructor leaves it, built with \<^verbatim>\<open>is_metric=True\<close> and the default
  language tag: its settings cache is still empty.
\<close>

definition fresh_device :: device where
  "fresh_device = init base_device True ''en-US''"

text \<open>The same device after a refresh to \<^verbatim>\<open>{"AntiLeg": False, "MaxSetpoint": 60.0}\<close>.\<close>

definition scenario_device :: device where
  "scenario_device =
     fresh_device\<lparr> plant_settings := [''AntiLeg'' \<mapsto> PBool False, ''MaxSetpoint'' \<mapsto> PFloat 60] \<rparr>"

section \<open>Facts about the setters\<close>

subsection \<open>A setter that returns normally\<close>

lemma set_antilegionella_ok:
  "set_antilegionella api flag self r = (Inr res, self', r') \<Longrightarrow>
      \<exists>old out.
         plant_settings self (anti_legionella_on_off self) = Some old
         \<and> set_velis_plant_setting api (plant_data self) (gw self) (anti_legionella_on_off self)
             (if flag then 1 else 0) (PFloat (if truthy old then 1 else 0)) (umsys self) r
           = (Inr out, r')
         \<and> water_anti_leg_value self' = PBool flag"
  unfolding set_antilegionella_def dict_getitem_def water_anti_leg_value_def dict_get_def
  by (auto split: option.splits sum.splits prod.splits)

lemma async_set_antilegionella_ok:
  "async_set_antilegionella api flag self r = (Inr res, self', r') \<Longrightarrow>
      \<exists>old out.
         plant_settings self (anti_legionella_on_off self) = Some old
         \<and> async_set_velis_plant_setting api (plant_data self) (gw self)
             (anti_legionella_on_off self)
             (if flag then 1 else 0) (PFloat (if truthy old then 1 else 0)) (umsys self) r
           = (Inr out, r')
         \<and> water_anti_leg_value self' = PBool flag"
  unfolding async_set_antilegionella_def dict_getitem_def water_anti_leg_value_def dict_get_def
  by (auto split: option.splits sum.splits prod.splits)

lemma set_max_setpoint_temp_ok:
  "set_max_setpoint_temp api v self r = (Inr res, self', r') \<Longrightarrow>
      \<exists>old out.
         plant_settings self (max_setpoint_temp self) = Some old
         \<and> set_velis_plant_setting api (plant_data self) (gw self) (max_setpoint_temp self)
             v old (umsys self) r
           = (Inr out, r')
         \<and> water_heater_maximum_setpoint_temperature self' = PFloat v
         \<and> water_heater_maximum_temperature self' = PFloat v"
  unfolding set_max_setpoint_temp_def dict_getitem_def
    water_heater_maximum_temperature_def water_heater_maximum_setpoint_temperature_def dict_get_def
  by (auto split: option.splits sum.splits prod.splits)

lemma async_set_max_setpoint_temp_ok:
  "async_set_max_setpoint_temp api v self r = (Inr res, self', r') \<Longrightarrow>
      \<exists>old out.
         plant_settings self (max_setpoint_temp self) = Some old
         \<and> async_set_velis_plant_setting api (plant_data self) (gw self) (max_setpoint_temp self)
             v old (umsys self) r
           = (Inr out, r')
         \<and> water_heater_maximum_setpoint_temperature self' = PFloat v
         \<and> water_heater_maximum_temperature self' = PFloat v"
  unfolding async_set_max_setpoint_temp_def dict_getitem_def
    water_heater_maximum_temperature_def water_heater_maximum_setpoint_temperature_def dict_get_def
  by (auto split: option.splits sum.splits prod.splits)

subsection \<open>A setter whose remote call raises\<close>

lemma set_antilegionella_remote_fails:
  "plant_settings self (anti_legionella_on_off self) = Some old \<Longrightarrow>
   set_velis_plant_setting api (plant_data self) (gw self) (anti_legionella_on_off self)
     (if flag then 1 else 0) (PFloat (if truthy old then 1 else 0)) (umsys self) r = (Inl e, r') \<Longrightarrow>
   set_antilegionella api flag self r = (Inl e, self, r')"
  by (simp add: set_antilegionella_def dict_getitem_def)

lemma async_set_antilegionella_remote_fails:
  "plant_settings self (anti_legionella_on_off self) = Some old \<Longrightarrow>
   async_set_velis_plant_setting api (plant_data self) (gw self) (anti_legionella_on_off self)
     (if flag then 1 else 0) (PFloat (if truthy old then 1 else 0)) (umsys self) r = (Inl e, r') \<Longrightarrow>
   async_set_antilegionella api flag self r = (Inl e, self, r')"
  by (simp add: async_set_antilegionella_def dict_getitem_def)

lemma set_max_setpoint_temp_remote_fails:
  "plant_settings self (max_setpoint_temp self) = Some old \<Longrightarrow>
   set_velis_plant_setting api (plant_data self) (gw self) (max_setpoint_temp self)
     v old (umsys self) r = (Inl e, r') \<Longrightarrow>
   set_max_setpoint_temp api v self r = (Inl e, self, r')"
  by (simp add: set_max_setpoint_temp_def dict_getitem_def)

lemma async_set_max_setpoint_temp_remote_fails:
  "plant_settings self (max_setpoint_temp self) = Some old \<Longrightarrow>
   async_set_velis_plant_setting api (plant_data self) (gw self) (max_setpoint_temp self)
     v old (umsys self) r = (Inl e, r') \<Longrightarrow>
   async_set_max_setpoint_temp api v self r = (Inl e, self, r')"
  by (simp add: async_set_max_setpoint_temp_def dict_getitem_def)

subsection \<open>A setter whose key is not in the cache\<close>

lemma set_antilegionella_missing:
  "plant_settings self (anti_legionella_on_off self) = None \<Longrightarrow>
   set_antilegionella api flag self r = (Inl (KeyError (anti_legionella_on_off self)), self, r)"
  by (simp add: set_antilegionella_def dict_getitem_def)

lemma async_set_antilegionella_missing:
  "plant_settings self (anti_legionella_on_off self) = None \<Longrightarrow>
   async_set_antilegionella api flag self r
     = (Inl (KeyError (anti_legionella_on_off self)), self, r)"
  by (simp add: async_set_antilegionella_def dict_getitem_def)

lemma set_max_setpoint_temp_missing:
  "plant_settings self (max_setpoint_temp self) = None \<Longrightarrow>
   set_max_setpoint_temp api v self r = (Inl (KeyError (max_setpoint_temp self)), self, r)"
  by (simp add: set_max_setpoint_temp_def dict_getitem_def)

lemma async_set_max_setpoint_temp_missing:
  "plant_settings self (max_setpoint_temp self) = None \<Longrightarrow>
   async_set_max_setpoint_temp api v self r = (Inl (KeyError (max_setpoint_temp self)), self, r)"
  by (simp add: async_set_max_setpoint_temp_def dict_getitem_def)

subsection \<open>The device a setter leaves behind\<close>

text \<open>Whatever the client does, the object afterwards is the old one or differs in one entry.\<close>

lemma set_antilegionella_device:
  "fst (snd (set_antilegionella api flag self r)) = self
   \<or> fst (snd (set_antilegionella api flag self r))
       = self\<lparr> plant_settings :=
           (plant_settings self)(anti_legionella_on_off self \<mapsto> PBool flag) \<rparr>"
  unfolding set_antilegionella_def
  by (simp split: sum.split prod.split)

lemma async_set_antilegionella_device:
  "fst (snd (async_set_antilegionella api flag self r)) = self
   \<or> fst (snd (async_set_antilegionella api flag self r))
       = self\<lparr> plant_settings :=
           (plant_settings self)(anti_legionella_on_off self \<mapsto> PBool flag) \<rparr>"
  unfolding async_set_antilegionella_def
  by (simp split: sum.split prod.split)

lemma set_max_setpoint_temp_device:
  "fst (snd (set_max_setpoint_temp api v self r)) = self
   \<or> fst (snd (set_max_setpoint_temp api v self r))
       = self\<lparr> plant_settings := (plant_settings self)(max_setpoint_temp self \<mapsto> PFloat v) \<rparr>"
  unfolding set_max_setpoint_temp_def
  by (simp split: sum.split prod.split)

lemma async_set_max_setpoint_temp_device:
  "fst (snd (async_set_max_setpoint_temp api v self r)) = self
   \<or> fst (snd (async_set_max_setpoint_temp api v self r))
       = self\<lparr> plant_settings := (plant_settings self)(max_setpoint_temp self \<mapsto> PFloat v) \<rparr>"
  unfolding async_set_max_setpoint_temp_def
  by (simp split: sum.split prod.split)

lemma set_antilegionella_fixed_fields:
  "umsys (fst (snd (set_antilegionella api flag self r))) = umsys self
   \<and> unit (fst (snd (set_antilegionella api flag self r))) = unit self
   \<and> language_tag (fst (snd (set_antilegionella api flag self r))) = language_tag self
   \<and> data (fst (snd (set_antilegionella api flag self r))) = data self"
  using set_antilegionella_device [of api flag self r] by (elim disjE) simp_all

lemma async_set_antilegionella_fixed_fields:
  "umsys (fst (snd (async_set_antilegionella api flag self r))) = umsys self
   \<and> unit (fst (snd (async_set_antilegionella api flag self r))) = unit self
   \<and> language_tag (fst (snd (async_set_antilegionella api flag self r))) = language_tag self
   \<and> data (fst (snd (async_set_antilegionella api flag self r))) = data self"
  using async_set_antilegionella_device [of api flag self r] by (elim disjE) simp_all

lemma set_max_setpoint_temp_fixed_fields:
  "umsys (fst (snd (set_max_setpoint_temp api v self r))) = umsys self
   \<and> unit (fst (snd (set_max_setpoint_temp api v self r))) = unit self
   \<and> language_tag (fst (snd (set_max_setpoint_temp api v self r))) = language_tag self
   \<and> data (fst (snd (set_max_setpoint_temp api v self r))) = data self"
  using set_max_setpoint_temp_device [of api v self r] by (elim disjE) simp_all

lemma async_set_max_setpoint_temp_fixed_fields:
  "umsys (fst (snd (async_set_max_setpoint_temp api v self r))) = umsys self
   \<and> unit (fst (snd (async_set_max_setpoint_temp api v self r))) = unit self
   \<and> language_tag (fst (snd (async_set_max_setpoint_temp api v self r))) = language_tag self
   \<and> data (fst (snd (async_set_max_setpoint_temp api v self r))) = data self"
  using async_set_max_setpoint_temp_device [of api v self r] by (elim disjE) simp_all

lemma invoke_fixed_fields:
  "umsys (fst (snd (invoke api P m self r))) = umsys self
   \<and> unit (fst (snd (invoke api P m self r))) = unit self
   \<and> language_tag (fst (snd (invoke api P m self r))) = language_tag self
   \<and> data (fst (snd (invoke api P m self r))) = data self"
  by (cases m)
    (simp_all add: set_antilegionella_fixed_fields async_set_antilegionella_fixed_fields
      set_max_setpoint_temp_fixed_fields async_set_max_setpoint_temp_fixed_fields)

lemma set_antilegionella_other_keys:
  "k \<noteq> anti_legionella_on_off self \<Longrightarrow>
   plant_settings (fst (snd (set_antilegionella api flag self r))) k = plant_settings self k"
  using set_antilegionella_device [of api flag self r] by (elim disjE) simp_all

lemma async_set_antilegionella_other_keys:
  "k \<noteq> anti_legionella_on_off self \<Longrightarrow>
   plant_settings (fst (snd (async_set_antilegionella api flag self r))) k = plant_settings self k"
  using async_set_antilegionella_device [of api flag self r] by (elim disjE) simp_all

lemma set_max_setpoint_temp_other_keys:
  "k \<noteq> max_setpoint_temp self \<Longrightarrow>
   plant_settings (fst (snd (set_max_setpoint_temp api v self r))) k = plant_settings self k"
  using set_max_setpoint_temp_device [of api v self r] by (elim disjE) simp_all

lemma async_set_max_setpoint_temp_other_keys:
  "k \<noteq> max_setpoint_temp self \<Longrightarrow>
   plant_settings (fst (snd (async_set_max_setpoint_temp api v self r))) k = plant_settings self k"
  using async_set_max_setpoint_temp_device [of api v self r] by (elim disjE) simp_all

subsection \<open>The example devices, evaluated\<close>

lemma fresh_fields:
  "plant_data fresh_device = PInt 4"
  "gw fresh_device = PStr ''GW01''"
  "anti_legionella_on_off fresh_device = ''AntiLeg''"
  "max_setpoint_temp fresh_device = ''MaxSetpoint''"
  "umsys fresh_device = ''si''"
  "unit fresh_device = [CHR 0xB0, CHR ''C'']"
  "language_tag fresh_device = ''en-US''"
  "plant_settings fresh_device = Map.empty"
  "data fresh_device = Map.empty"
  by (simp_all add: fresh_device_def init_def base_device_def)

lemma scenario_fields:
  "plant_data scenario_device = PInt 4"
  "gw scenario_device = PStr ''GW01''"
  "anti_legionella_on_off scenario_device = ''AntiLeg''"
  "max_setpoint_temp scenario_device = ''MaxSetpoint''"
  "umsys scenario_device = ''si''"
  "unit scenario_device = [CHR 0xB0, CHR ''C'']"
  "language_tag scenario_device = ''en-US''"
  "data scenario_device = Map.empty"
  "plant_settings scenario_device ''AntiLeg'' = Some (PBool False)"
  "plant_settings scenario_device ''MaxSetpoint'' = Some (PFloat 60)"
  by (simp_all add: scenario_device_def fresh_fields)

lemma recording_api_call:
  "set_velis_plant_setting recording_api pd g k new old u calls
     = (Inr PNone, calls @ [(pd, g, k, new, old, u)])"
  "async_set_velis_plant_setting recording_api pd g k new old u calls
     = (Inr PNone, calls @ [(pd, g, k, new, old, u)])"
  by (simp_all add: recording_api_def)

lemma failing_api_call:
  "set_velis_plant_setting (failing_api e) pd g k new old u calls
     = (Inl e, calls @ [(pd, g, k, new, old, u)])"
  "async_set_velis_plant_setting (failing_api e) pd g k new old u calls
     = (Inl e, calls @ [(pd, g, k, new, old, u)])"
  by (simp_all add: failing_api_def)

lemma scenario_set_antilegionella:
  "set_antilegionella recording_api True scenario_device []
     = (Inr PNone,
        scenario_device\<lparr> plant_settings :=
          (plant_settings scenario_device)(''AntiLeg'' \<mapsto> PBool True) \<rparr>,
        [(PInt 4, PStr ''GW01'', ''AntiLeg'', 1, PFloat 0, ''si'')])"
  by (simp add: set_antilegionella_def dict_getitem_def scenario_fields recording_api_call)

lemma scenario_async_set_antilegionella:
  "async_set_antilegionella recording_api True scenario_device []
     = (Inr PNone,
        scenario_device\<lparr> plant_settings :=
          (plant_settings scenario_device)(''AntiLeg'' \<mapsto> PBool True) \<rparr>,
        [(PInt 4, PStr ''GW01'', ''AntiLeg'', 1, PFloat 0, ''si'')])"
  by (simp add: async_set_antilegionella_def dict_getitem_def scenario_fields recording_api_call)

lemma scenario_set_max_setpoint_temp:
  "set_max_setpoint_temp recording_api 65 scenario_device []
     = (Inr PNone,
        scenario_device\<lparr> plant_settings :=
          (plant_settings scenario_device)(''MaxSetpoint'' \<mapsto> PFloat 65) \<rparr>,
        [(PInt 4, PStr ''GW01'', ''MaxSetpoint'', 65, PFloat 60, ''si'')])"
  by (simp add: set_max_setpoint_temp_def dict_getitem_def scenario_fields recording_api_call)

lemma scenario_async_set_max_setpoint_temp:
  "async_set_max_setpoint_temp recording_api 65 scenario_device []
     = (Inr PNone,
        scenario_device\<lparr> plant_settings :=
          (plant_settings scenario_device)(''MaxSetpoint'' \<mapsto> PFloat 65) \<rparr>,
        [(PInt 4, PStr ''GW01'', ''MaxSetpoint'', 65, PFloat 60, ''si'')])"
  by (simp add: async_set_max_setpoint_temp_def dict_getitem_def scenario_fields
      recording_api_call)

section \<open>Properties\<close>

subsection \<open>Successful writes\<close>

text \<open>
  C1. When \<^verbatim>\<open>set_antilegionella(flag)\<close> or its asynchronous variant returns normally, the
  key was in the cache with some value \<open>old\<close>, the client's method was called from the
  remote state the setter started in, with the device's \<^verbatim>\<open>plant_data\<close>, its gateway, the
  key \<^verbatim>\<open>anti_legionella_on_off\<close>, the new value 1.0 for a true flag and 0.0 otherwise, the
  old value 1.0 for a truthy \<open>old\<close> and 0.0 otherwise, and \<^verbatim>\<open>umsys\<close>; that call returned
  normally and left the remote state the setter ends in; and \<^verbatim>\<open>water_anti_leg_value\<close> of
  the device afterwards is the flag.
\<close>

theorem set_antilegionella_calls_remote_then_caches:
  "(set_antilegionella api flag self r = (Inr res, self', r') \<longrightarrow>
      (\<exists>old out.
         plant_settings self (anti_legionella_on_off self) = Some old
         \<and> set_velis_plant_setting api (plant_data self) (gw self) (anti_legionella_on_off self)
             (if flag then 1 else 0) (PFloat (if truthy old then 1 else 0)) (umsys self) r
           = (Inr out, r')
         \<and> water_anti_leg_value self' = PBool flag))
   \<and> (async_set_antilegionella api flag self r = (Inr res, self', r') \<longrightarrow>
      (\<exists>old out.
         plant_settings self (anti_legionella_on_off self) = Some old
         \<and> async_set_velis_plant_setting api (plant_data self) (gw self)
             (anti_legionella_on_off self)
             (if flag then 1 else 0) (PFloat (if truthy old then 1 else 0)) (umsys self) r
           = (Inr out, r')
         \<and> water_anti_leg_value self' = PBool flag))"
  by (intro conjI impI set_antilegionella_ok async_set_antilegionella_ok)

text \<open>
  The scenario of the specification: on the metric device with the cache
  \<^verbatim>\<open>{"AntiLeg": False, "MaxSetpoint": 60.0}\<close>, \<^verbatim>\<open>set_antilegionella(True)\<close> makes exactly one
  call, with new value 1.0 and old value 0.0, and the cache then reads \<^verbatim>\<open>True\<close>.
\<close>

theorem set_antilegionella_calls_remote_then_caches_witness:
  "set_antilegionella recording_api True scenario_device []
     = (Inr PNone,
        scenario_device\<lparr> plant_settings :=
          (plant_settings scenario_device)(''AntiLeg'' \<mapsto> PBool True) \<rparr>,
        [(PInt 4, PStr ''GW01'', ''AntiLeg'', 1, PFloat 0, ''si'')])
   \<and> async_set_antilegionella recording_api True scenario_device []
     = (Inr PNone,
        scenario_device\<lparr> plant_settings :=
          (plant_settings scenario_device)(''AntiLeg'' \<mapsto> PBool True) \<rparr>,
        [(PInt 4, PStr ''GW01'', ''AntiLeg'', 1, PFloat 0, ''si'')])
   \<and> water_anti_leg_value
        (scenario_device\<lparr> plant_settings :=
          (plant_settings scenario_device)(''AntiLeg'' \<mapsto> PBool True) \<rparr>)
       = PBool True"
proof -
  from set_antilegionella_calls_remote_then_caches
    [THEN conjunct1, rule_format, OF scenario_set_antilegionella]
  have sync: "water_anti_leg_value
        (scenario_device\<lparr> plant_settings :=
          (plant_settings scenario_device)(''AntiLeg'' \<mapsto> PBool True) \<rparr>)
       = PBool True"
    by (elim exE conjE)
  from set_antilegionella_calls_remote_then_caches
    [THEN conjunct2, rule_format, OF scenario_async_set_antilegionella]
  have "water_anti_leg_value
        (scenario_device\<lparr> plant_settings :=
          (plant_settings scenario_device)(''AntiLeg'' \<mapsto> PBool True) \<rparr>)
       = PBool True"
    by (elim exE conjE)
  with sync scenario_set_antilegionella scenario_async_set_antilegionella
  show ?thesis by simp
qed

text \<open>
  C2. When \<^verbatim>\<open>set_max_setpoint_temp(v)\<close> or its asynchronous variant returns normally, the
  key \<^verbatim>\<open>max_setpoint_temp\<close> was in the cache with some value \<open>old\<close>, and the client's method
  was called with that key, with \<open>v\<close> itself as the new value and \<open>old\<close> itself as the old
  value, neither of them transformed; afterwards
  \<^verbatim>\<open>water_heater_maximum_setpoint_temperature\<close> and \<^verbatim>\<open>water_heater_maximum_temperature\<close>
  both yield \<open>v\<close>.
\<close>

theorem set_max_setpoint_temp_calls_remote_then_caches:
  "(set_max_setpoint_temp api v self r = (Inr res, self', r') \<longrightarrow>
      (\<exists>old out.
         plant_settings self (max_setpoint_temp self) = Some old
         \<and> set_velis_plant_setting api (plant_data self) (gw self) (max_setpoint_temp self)
             v old (umsys self) r
           = (Inr out, r')
         \<and> water_heater_maximum_setpoint_temperature self' = PFloat v
         \<and> water_heater_maximum_temperature self' = PFloat v))
   \<and> (async_set_max_setpoint_temp api v self r = (Inr res, self', r') \<longrightarrow>
      (\<exists>old out.
         plant_settings self (max_setpoint_temp self) = Some old
         \<and> async_set_velis_plant_setting api (plant_data self) (gw self) (max_setpoint_temp self)
             v old (umsys self) r
           = (Inr out, r')
         \<and> water_heater_maximum_setpoint_temperature self' = PFloat v
         \<and> water_heater_maximum_temperature self' = PFloat v))"
  by (intro conjI impI set_max_setpoint_temp_ok async_set_max_setpoint_temp_ok)

text \<open>
  The scenario of the specification: on the same device \<^verbatim>\<open>set_max_setpoint_temp(65.0)\<close>
  makes exactly one call, with new value 65.0 and old value 60.0, and both properties
  then read 65.0.
\<close>

theorem set_max_setpoint_temp_calls_remote_then_caches_witness:
  "set_max_setpoint_temp recording_api 65 scenario_device []
     = (Inr PNone,
        scenario_device\<lparr> plant_settings :=
          (plant_settings scenario_device)(''MaxSetpoint'' \<mapsto> PFloat 65) \<rparr>,
        [(PInt 4, PStr ''GW01'', ''MaxSetpoint'', 65, PFloat 60, ''si'')])
   \<and> async_set_max_setpoint_temp recording_api 65 scenario_device []
     = (Inr PNone,
        scenario_device\<lparr> plant_settings :=
          (plant_settings scenario_device)(''MaxSetpoint'' \<mapsto> PFloat 65) \<rparr>,
        [(PInt 4, PStr ''GW01'', ''MaxSetpoint'', 65, PFloat 60, ''si'')])
   \<and> water_heater_maximum_setpoint_temperature
        (scenario_device\<lparr> plant_settings :=
          (plant_settings scenario_device)(''MaxSetpoint'' \<mapsto> PFloat 65) \<rparr>)
       = PFloat 65
   \<and> water_heater_maximum_temperature
        (scenario_device\<lparr> plant_settings :=
          (plant_settings scenario_device)(''MaxSetpoint'' \<mapsto> PFloat 65) \<rparr>)
       = PFloat 65"
proof -
  from set_max_setpoint_temp_calls_remote_then_caches
    [THEN conjunct1, rule_format, OF scenario_set_max_setpoint_temp]
  have sync: "water_heater_maximum_setpoint_temperature
        (scenario_device\<lparr> plant_settings :=
          (plant_settings scenario_device)(''MaxSetpoint'' \<mapsto> PFloat 65) \<rparr>)
       = PFloat 65
   \<and> water_heater_maximum_temperature
        (scenario_device\<lparr> plant_settings :=
          (plant_settings scenario_device)(''MaxSetpoint'' \<mapsto> PFloat 65) \<rparr>)
       = PFloat 65"
    by (elim exE conjE) (intro conjI)
  from set_max_setpoint_temp_calls_remote_then_caches
    [THEN conjunct2, rule_format, OF scenario_async_set_max_setpoint_temp]
  have "water_heater_maximum_setpoint_temperature
        (scenario_device\<lparr> plant_settings :=
          (plant_settings scenario_device)(''MaxSetpoint'' \<mapsto> PFloat 65) \<rparr>)
       = PFloat 65"
    by (elim exE conjE)
  with sync scenario_set_max_setpoint_temp scenario_async_set_max_setpoint_temp
  show ?thesis by simp
qed

subsection \<open>Failures\<close>

text \<open>
  C3. For each of the four setters: when the key is in the cache and the client's call
  raises \<open>e\<close>, the setter raises that same \<open>e\<close>, and the device afterwards is the device
  before, so the cached value of the key (and every other one) is what it was.
\<close>

theorem remote_failure_propagates_cache_unchanged:
  "(plant_settings self (anti_legionella_on_off self) = Some old \<and>
    set_velis_plant_setting api (plant_data self) (gw self) (anti_legionella_on_off self)
      (if flag then 1 else 0) (PFloat (if truthy old then 1 else 0)) (umsys self) r = (Inl e, r')
    \<longrightarrow> set_antilegionella api flag self r = (Inl e, self, r'))
   \<and> (plant_settings self (anti_legionella_on_off self) = Some old \<and>
    async_set_velis_plant_setting api (plant_data self) (gw self) (anti_legionella_on_off self)
      (if flag then 1 else 0) (PFloat (if truthy old then 1 else 0)) (umsys self) r = (Inl e, r')
    \<longrightarrow> async_set_antilegionella api flag self r = (Inl e, self, r'))
   \<and> (plant_settings self (max_setpoint_temp self) = Some old \<and>
    set_velis_plant_setting api (plant_data self) (gw self) (max_setpoint_temp self)
      v old (umsys self) r = (Inl e, r')
    \<longrightarrow> set_max_setpoint_temp api v self r = (Inl e, self, r'))
   \<and> (plant_settings self (max_setpoint_temp self) = Some old \<and>
    async_set_velis_plant_setting api (plant_data self) (gw self) (max_setpoint_temp self)
      v old (umsys self) r = (Inl e, r')
    \<longrightarrow> async_set_max_setpoint_temp api v self r = (Inl e, self, r'))"
  apply (intro conjI impI; elim conjE)
     apply (erule (1) set_antilegionella_remote_fails)
    apply (erule (1) async_set_antilegionella_remote_fails)
   apply (erule (1) set_max_setpoint_temp_remote_fails)
  apply (erule (1) async_set_max_setpoint_temp_remote_fails)
  done

text \<open>
  On the scenario device, against a client that raises \<^verbatim>\<open>ConnectionError\<close>: each setter
  raises it after its one call, and the device is the scenario device still.
\<close>

theorem remote_failure_propagates_cache_unchanged_witness:
  "plant_settings scenario_device ''AntiLeg'' = Some (PBool False)
   \<and> plant_settings scenario_device ''MaxSetpoint'' = Some (PFloat 60)
   \<and> set_antilegionella (failing_api (Exception ''ConnectionError'')) True scenario_device []
      = (Inl (Exception ''ConnectionError''), scenario_device,
         [(PInt 4, PStr ''GW01'', ''AntiLeg'', 1, PFloat 0, ''si'')])
   \<and> async_set_antilegionella (failing_api (Exception ''ConnectionError'')) True
        scenario_device []
      = (Inl (Exception ''ConnectionError''), scenario_device,
         [(PInt 4, PStr ''GW01'', ''AntiLeg'', 1, PFloat 0, ''si'')])
   \<and> set_max_setpoint_temp (failing_api (Exception ''ConnectionError'')) 65 scenario_device []
      = (Inl (Exception ''ConnectionError''), scenario_device,
         [(PInt 4, PStr ''GW01'', ''MaxSetpoint'', 65, PFloat 60, ''si'')])
   \<and> async_set_max_setpoint_temp (failing_api (Exception ''ConnectionError'')) 65
        scenario_device []
      = (Inl (Exception ''ConnectionError''), scenario_device,
         [(PInt 4, PStr ''GW01'', ''MaxSetpoint'', 65, PFloat 60, ''si'')])"
proof -
  have a: "set_antilegionella (failing_api (Exception ''ConnectionError'')) True
        scenario_device []
      = (Inl (Exception ''ConnectionError''), scenario_device,
         [(PInt 4, PStr ''GW01'', ''AntiLeg'', 1, PFloat 0, ''si'')])"
    using remote_failure_propagates_cache_unchanged
      [of scenario_device "PBool False" "failing_api (Exception ''ConnectionError'')"
        True "[]" "Exception ''ConnectionError''"
        "[(PInt 4, PStr ''GW01'', ''AntiLeg'', 1, PFloat 0, ''si'')]", THEN conjunct1]
    by (simp add: scenario_fields failing_api_call)
  have b: "async_set_antilegionella (failing_api (Exception ''ConnectionError'')) True
        scenario_device []
      = (Inl (Exception ''ConnectionError''), scenario_device,
         [(PInt 4, PStr ''GW01'', ''AntiLeg'', 1, PFloat 0, ''si'')])"
    using remote_failure_propagates_cache_unchanged
      [of scenario_device "PBool False" "failing_api (Exception ''ConnectionError'')"
        True "[]" "Exception ''ConnectionError''"
        "[(PInt 4, PStr ''GW01'', ''AntiLeg'', 1, PFloat 0, ''si'')]",
        THEN conjunct2, THEN conjunct1]
    by (simp add: scenario_fields failing_api_call)
  have c: "set_max_setpoint_temp (failing_api (Exception ''ConnectionError'')) 65
        scenario_device []
      = (Inl (Exception ''ConnectionError''), scenario_device,
         [(PInt 4, PStr ''GW01'', ''MaxSetpoint'', 65, PFloat 60, ''si'')])"
    using remote_failure_propagates_cache_unchanged
      [of scenario_device "PFloat 60" "failing_api (Exception ''ConnectionError'')"
        True "[]" "Exception ''ConnectionError''"
        "[(PInt 4, PStr ''GW01'', ''MaxSetpoint'', 65, PFloat 60, ''si'')]" 65,
        THEN conjunct2, THEN conjunct2, THEN conjunct1]
    by (simp add: scenario_fields failing_api_call)
  have d: "async_set_max_setpoint_temp (failing_api (Exception ''ConnectionError'')) 65
        scenario_device []
      = (Inl (Exception ''ConnectionError''), scenario_device,
         [(PInt 4, PStr ''GW01'', ''MaxSetpoint'', 65, PFloat 60, ''si'')])"
    using remote_failure_propagates_cache_unchanged
      [of scenario_device "PFloat 60" "failing_api (Exception ''ConnectionError'')"
        True "[]" "Exception ''ConnectionError''"
        "[(PInt 4, PStr ''GW01'', ''MaxSetpoint'', 65, PFloat 60, ''si'')]" 65,
        THEN conjunct2, THEN conjunct2, THEN conjunct2]
    by (simp add: scenario_fields failing_api_call)
  from a b c d show ?thesis by (simp add: scenario_fields)
qed

text \<open>
  C4. When the cache has no entry for the anti-legionella key, \<^verbatim>\<open>set_antilegionella\<close> and
  its asynchronous variant raise \<^verbatim>\<open>KeyError\<close> for that key, and the cache afterwards is
  the cache before: in particular the key is still absent.
\<close>

theorem set_antilegionella_missing_key_error:
  assumes "plant_settings self (anti_legionella_on_off self) = None"
  shows "fst (set_antilegionella api flag self r) = Inl (KeyError (anti_legionella_on_off self))
     \<and> fst (async_set_antilegionella api flag self r)
         = Inl (KeyError (anti_legionella_on_off self))
     \<and> plant_settings (fst (snd (set_antilegionella api flag self r))) = plant_settings self
     \<and> plant_settings (fst (snd (async_set_antilegionella api flag self r)))
         = plant_settings self
     \<and> plant_settings (fst (snd (set_antilegionella api flag self r)))
         (anti_legionella_on_off self) = None
     \<and> plant_settings (fst (snd (async_set_antilegionella api flag self r)))
         (anti_legionella_on_off self) = None"
  using assms
  by (simp add: set_antilegionella_missing async_set_antilegionella_missing)

text \<open>The setter called on a device that no refresh has filled yet.\<close>

theorem set_antilegionella_missing_key_error_witness:
  "plant_settings fresh_device (anti_legionella_on_off fresh_device) = None
   \<and> fst (set_antilegionella recording_api True fresh_device []) = Inl (KeyError ''AntiLeg'')
   \<and> fst (async_set_antilegionella recording_api True fresh_device [])
       = Inl (KeyError ''AntiLeg'')
   \<and> plant_settings (fst (snd (set_antilegionella recording_api True fresh_device [])))
       ''AntiLeg'' = None
   \<and> plant_settings (fst (snd (async_set_antilegionella recording_api True fresh_device [])))
       ''AntiLeg'' = None"
proof -
  have absent: "plant_settings fresh_device (anti_legionella_on_off fresh_device) = None"
    by (simp add: fresh_fields)
  from set_antilegionella_missing_key_error [OF absent, of recording_api True "[]"] absent
  show ?thesis by (simp add: fresh_fields)
qed

text \<open>
  C10. For each of the four setters: when the cache has no entry for the setter's key,
  the setter raises \<^verbatim>\<open>KeyError\<close> for that key and the remote state afterwards is the
  remote state before, whatever the client's methods would do to it. So neither
  \<^verbatim>\<open>set_velis_plant_setting\<close> nor \<^verbatim>\<open>async_set_velis_plant_setting\<close> is entered: the error
  comes from the old-value argument, before the call.
\<close>

theorem missing_key_no_remote_call:
  "(plant_settings self (anti_legionella_on_off self) = None \<longrightarrow>
      set_antilegionella api flag self r
        = (Inl (KeyError (anti_legionella_on_off self)), self, r)
      \<and> async_set_antilegionella api flag self r
        = (Inl (KeyError (anti_legionella_on_off self)), self, r))
   \<and> (plant_settings self (max_setpoint_temp self) = None \<longrightarrow>
      set_max_setpoint_temp api v self r = (Inl (KeyError (max_setpoint_temp self)), self, r)
      \<and> async_set_max_setpoint_temp api v self r
        = (Inl (KeyError (max_setpoint_temp self)), self, r))"
  by (simp add: set_antilegionella_missing async_set_antilegionella_missing
      set_max_setpoint_temp_missing async_set_max_setpoint_temp_missing)

text \<open>
  On the device that no refresh has filled, the recording client's list of calls stays
  empty under all four setters; on the refreshed device the same client does record a
  call.
\<close>

theorem missing_key_no_remote_call_witness:
  "plant_settings fresh_device (anti_legionella_on_off fresh_device) = None
   \<and> plant_settings fresh_device (max_setpoint_temp fresh_device) = None
   \<and> set_antilegionella recording_api True fresh_device []
       = (Inl (KeyError ''AntiLeg''), fresh_device, [])
   \<and> async_set_antilegionella recording_api True fresh_device []
       = (Inl (KeyError ''AntiLeg''), fresh_device, [])
   \<and> set_max_setpoint_temp recording_api 65 fresh_device []
       = (Inl (KeyError ''MaxSetpoint''), fresh_device, [])
   \<and> async_set_max_setpoint_temp recording_api 65 fresh_device []
       = (Inl (KeyError ''MaxSetpoint''), fresh_device, [])
   \<and> snd (snd (set_antilegionella recording_api True scenario_device [])) \<noteq> []"
proof -
  have absent:
    "plant_settings fresh_device (anti_legionella_on_off fresh_device) = None"
    "plant_settings fresh_device (max_setpoint_temp fresh_device) = None"
    by (simp_all add: fresh_fields)
  from missing_key_no_remote_call [of fresh_device recording_api True "[]" 65] absent
  have "set_antilegionella recording_api True fresh_device []
       = (Inl (KeyError ''AntiLeg''), fresh_device, [])
   \<and> async_set_antilegionella recording_api True fresh_device []
       = (Inl (KeyError ''AntiLeg''), fresh_device, [])
   \<and> set_max_setpoint_temp recording_api 65 fresh_device []
       = (Inl (KeyError ''MaxSetpoint''), fresh_device, [])
   \<and> async_set_max_setpoint_temp recording_api 65 fresh_device []
       = (Inl (KeyError ''MaxSetpoint''), fresh_device, [])"
    by (simp add: fresh_fields)
  with absent show ?thesis by (simp add: scenario_set_antilegionella)
qed

subsection \<open>Synchronous and asynchronous variants\<close>

text \<open>
  C5. For every client, argument, device and remote state, each asynchronous setter is
  its synchronous twin run over a client whose \<^verbatim>\<open>set_velis_plant_setting\<close> is the
  asynchronous method: the two variants build the same six arguments, test the cache in
  the same way and make the same update, and differ only in which method of the client
  performs the remote call.
\<close>

theorem async_setters_are_sync_setters:
  "async_set_antilegionella api flag self r
     = set_antilegionella (api\<lparr> set_velis_plant_setting := async_set_velis_plant_setting api \<rparr>)
         flag self r
   \<and> async_set_max_setpoint_temp api v self r
     = set_max_setpoint_temp
         (api\<lparr> set_velis_plant_setting := async_set_velis_plant_setting api \<rparr>) v self r"
  by (simp add: async_set_antilegionella_def set_antilegionella_def
      async_set_max_setpoint_temp_def set_max_setpoint_temp_def split: sum.split)

subsection \<open>Reads\<close>

text \<open>
  C6. \<^verbatim>\<open>water_anti_leg_value\<close>, \<^verbatim>\<open>proc_req_temp_value\<close> and
  \<^verbatim>\<open>water_heater_maximum_setpoint_temperature\<close> yield \<^verbatim>\<open>None\<close> when their key is missing
  from the dictionary they read; and reading any of the three returns a value, never an
  exception, and leaves both the device and the remote state exactly as they were.
\<close>

theorem accessors_absent_is_None:
  "(plant_settings self (anti_legionella_on_off self) = None \<longrightarrow>
      water_anti_leg_value self = PNone)
   \<and> (data self P = None \<longrightarrow> proc_req_temp_value P self = PNone)
   \<and> (plant_settings self (max_setpoint_temp self) = None \<longrightarrow>
      water_heater_maximum_setpoint_temperature self = PNone)
   \<and> invoke api P Get_water_anti_leg_value self r = (Inr (water_anti_leg_value self), self, r)
   \<and> invoke api P Get_proc_req_temp_value self r = (Inr (proc_req_temp_value P self), self, r)
   \<and> invoke api P Get_water_heater_maximum_setpoint_temperature self r
       = (Inr (water_heater_maximum_setpoint_temperature self), self, r)"
  by (simp add: water_anti_leg_value_def proc_req_temp_value_def
      water_heater_maximum_setpoint_temperature_def dict_get_def)

text \<open>All three keys are missing on the device that no refresh has filled.\<close>

theorem accessors_absent_is_None_witness:
  "plant_settings fresh_device (anti_legionella_on_off fresh_device) = None
   \<and> data fresh_device ''procReqTemp'' = None
   \<and> plant_settings fresh_device (max_setpoint_temp fresh_device) = None
   \<and> water_anti_leg_value fresh_device = PNone
   \<and> proc_req_temp_value ''procReqTemp'' fresh_device = PNone
   \<and> water_heater_maximum_setpoint_temperature fresh_device = PNone
   \<and> invoke recording_api ''procReqTemp'' Get_water_anti_leg_value fresh_device []
       = (Inr PNone, fresh_device, [])"
proof -
  have absent:
    "plant_settings fresh_device (anti_legionella_on_off fresh_device) = None"
    "data fresh_device ''procReqTemp'' = None"
    "plant_settings fresh_device (max_setpoint_temp fresh_device) = None"
    by (simp_all add: fresh_fields)
  from accessors_absent_is_None [of fresh_device "''procReqTemp''" recording_api "[]"] absent
  show ?thesis by simp
qed

text \<open>
  C7. A device built with \<^verbatim>\<open>is_metric=True\<close> has \<^verbatim>\<open>umsys == "si"\<close> and the unit label of
  degrees Celsius, one built with \<^verbatim>\<open>is_metric=False\<close> has \<^verbatim>\<open>umsys == "us"\<close> and the unit
  label of degrees Fahrenheit, and \<^verbatim>\<open>water_heater_temperature_unit\<close> is the \<^verbatim>\<open>unit\<close> field
  of whatever device it is read from.
\<close>

theorem init_unit_system:
  "umsys (init base True lang) = ''si''
   \<and> unit (init base True lang) = [CHR 0xB0, CHR ''C'']
   \<and> umsys (init base False lang) = ''us''
   \<and> unit (init base False lang) = [CHR 0xB0, CHR ''F'']
   \<and> water_heater_temperature_unit (init base True lang) = [CHR 0xB0, CHR ''C'']
   \<and> water_heater_temperature_unit (init base False lang) = [CHR 0xB0, CHR ''F'']
   \<and> water_heater_temperature_unit self = unit self"
  by (simp add: init_def water_heater_temperature_unit_def)

text \<open>
  C8. \<^verbatim>\<open>water_heater_minimum_temperature\<close> is 40.0 whatever the device holds: the result
  is the same for any two devices, and reading it through the interface leaves the
  device and the remote state as they were.
\<close>

theorem water_heater_minimum_temperature_constant:
  "water_heater_minimum_temperature self = 40
   \<and> water_heater_minimum_temperature self = water_heater_minimum_temperature other
   \<and> invoke api P Get_water_heater_minimum_temperature self r = (Inr (PFloat 40), self, r)"
  by (simp add: water_heater_minimum_temperature_def)

subsection \<open>What a member may change\<close>

text \<open>
  C9. Using any member of the class, with any arguments and against any client, leaves
  \<^verbatim>\<open>umsys\<close>, \<^verbatim>\<open>unit\<close>, \<^verbatim>\<open>language_tag\<close> and the \<^verbatim>\<open>data\<close> dictionary as they were, whether
  the member returns or raises. After \<^verbatim>\<open>set_antilegionella\<close> or its asynchronous variant
  every cache entry under a key other than \<^verbatim>\<open>anti_legionella_on_off\<close> is what it was, and
  after \<^verbatim>\<open>set_max_setpoint_temp\<close> or its asynchronous variant every entry under a key
  other than \<^verbatim>\<open>max_setpoint_temp\<close> is.
\<close>

theorem setters_frame:
  "umsys (fst (snd (invoke api P m self r))) = umsys self
   \<and> unit (fst (snd (invoke api P m self r))) = unit self
   \<and> language_tag (fst (snd (invoke api P m self r))) = language_tag self
   \<and> data (fst (snd (invoke api P m self r))) = data self
   \<and> (k \<noteq> anti_legionella_on_off self \<longrightarrow>
        plant_settings (fst (snd (set_antilegionella api flag self r))) k = plant_settings self k
        \<and> plant_settings (fst (snd (async_set_antilegionella api flag self r))) k
            = plant_settings self k)
   \<and> (k \<noteq> max_setpoint_temp self \<longrightarrow>
        plant_settings (fst (snd (set_max_setpoint_temp api v self r))) k = plant_settings self k
        \<and> plant_settings (fst (snd (async_set_max_setpoint_temp api v self r))) k
            = plant_settings self k)"
  using invoke_fixed_fields [of api P m self r]
    set_antilegionella_other_keys [of k self api flag r]
    async_set_antilegionella_other_keys [of k self api flag r]
    set_max_setpoint_temp_other_keys [of k self api v r]
    async_set_max_setpoint_temp_other_keys [of k self api v r]
  by blast

text \<open>
  On the scenario device a successful \<^verbatim>\<open>set_antilegionella(True)\<close> keeps the unit system
  and the entry for the maximum setpoint, and a successful \<^verbatim>\<open>set_max_setpoint_temp(65.0)\<close>
  keeps the anti-legionella entry.
\<close>

theorem setters_frame_witness:
  "''MaxSetpoint'' \<noteq> anti_legionella_on_off scenario_device
   \<and> ''AntiLeg'' \<noteq> max_setpoint_temp scenario_device
   \<and> umsys (fst (snd (invoke recording_api ''procReqTemp'' (Call_set_antilegionella True)
        scenario_device []))) = ''si''
   \<and> unit (fst (snd (invoke recording_api ''procReqTemp'' (Call_set_antilegionella True)
        scenario_device []))) = [CHR 0xB0, CHR ''C'']
   \<and> language_tag (fst (snd (invoke recording_api ''procReqTemp''
        (Call_set_antilegionella True) scenario_device []))) = ''en-US''
   \<and> plant_settings (fst (snd (set_antilegionella recording_api True scenario_device [])))
        ''MaxSetpoint'' = Some (PFloat 60)
   \<and> plant_settings (fst (snd (async_set_antilegionella recording_api True scenario_device [])))
        ''MaxSetpoint'' = Some (PFloat 60)
   \<and> plant_settings (fst (snd (set_max_setpoint_temp recording_api 65 scenario_device [])))
        ''AntiLeg'' = Some (PBool False)
   \<and> plant_settings (fst (snd (async_set_max_setpoint_temp recording_api 65 scenario_device [])))
        ''AntiLeg'' = Some (PBool False)"
proof -
  have keys:
    "''MaxSetpoint'' \<noteq> anti_legionella_on_off scenario_device"
    "''AntiLeg'' \<noteq> max_setpoint_temp scenario_device"
    by (simp_all add: scenario_fields)
  from setters_frame [of recording_api "''procReqTemp''" "Call_set_antilegionella True"
      scenario_device "[]" "''MaxSetpoint''" True 65] keys
  have a: "umsys (fst (snd (invoke recording_api ''procReqTemp'' (Call_set_antilegionella True)
        scenario_device []))) = ''si''
   \<and> unit (fst (snd (invoke recording_api ''procReqTemp'' (Call_set_antilegionella True)
        scenario_device []))) = [CHR 0xB0, CHR ''C'']
   \<and> language_tag (fst (snd (invoke recording_api ''procReqTemp''
        (Call_set_antilegionella True) scenario_device []))) = ''en-US''
   \<and> plant_settings (fst (snd (set_antilegionella recording_api True scenario_device [])))
        ''MaxSetpoint'' = Some (PFloat 60)
   \<and> plant_settings (fst (snd (async_set_antilegionella recording_api True scenario_device [])))
        ''MaxSetpoint'' = Some (PFloat 60)"
    by (simp add: scenario_fields)
  from setters_frame [of recording_api "''procReqTemp''" "Call_set_antilegionella True"
      scenario_device "[]" "''AntiLeg''" True 65] keys
  have b: "plant_settings (fst (snd (set_max_setpoint_temp recording_api 65 scenario_device [])))
        ''AntiLeg'' = Some (PBool False)
   \<and> plant_settings (fst (snd (async_set_max_setpoint_temp recording_api 65 scenario_device [])))
        ''AntiLeg'' = Some (PBool False)"
    by (simp add: scenario_fields)
  from keys a b show ?thesis by simp
qed

end
